theory Spec2Isabelle
  imports Complex_Main
begin

section \<open>The property graph built by the ETL pipeline\<close>

text \<open>
  The program \<^verbatim>\<open>graph_etl.py\<close> drives a graph database through Cypher statements.
  The database is the state; every method of \<^verbatim>\<open>GraphETLPipeline\<close> is a state
  transformer whose body is the meaning of its Cypher statement.

  A node is identified by its position in the list of the nodes of its label: nodes are only
  ever appended, or deleted all at once. The property \<^verbatim>\<open>id\<close> of a node is data and
  need not be unique. Of the properties of a node those that a statement reads or sets are
  modelled; the others (name, email, price, quantity, ...) are stored once and never read.
  Amounts are floating-point numbers in the program and exact rationals here; a date is a day
  number. A property that is absent (Cypher's \<^verbatim>\<open>null\<close>) is \<open>None\<close>.
\<close>

type_synonym node = nat
type_synonym date = int

record customer_node =
  c_id :: int
  total_orders :: "nat option"
  total_spent :: "rat option"
  avg_order_value :: "rat option"
  last_order_date :: "date option"
  customer_tier :: "string option"

record product_node =
  p_id :: int
  category :: string

text \<open>
  \<^verbatim>\<open>load_orders\<close> creates every Order node together with one PLACED relationship
  from a customer and one CONTAINS relationship to a product, so the two relationships are
  fields of the order node.
\<close>

record order_node =
  o_id :: int
  order_date :: "date option"
  total_amount :: "rat option"
  placed_by :: node
  contains_product :: node

text \<open>
  Relationships are entities of their own: the same pair of nodes may be linked twice, so
  the derived relationships are lists, not sets.
\<close>

record graph =
  customers :: "customer_node list"
  products :: "product_node list"
  categories :: "string list"
  orders :: "order_node list"
  belongs_to :: "(node \<times> node) list"
  similar_to :: "(node \<times> node \<times> nat) list"
  co_purchased :: "(node \<times> node \<times> nat) list"

text \<open>The rows of the data frames handed to the loading methods.\<close>

record customer_row =
  cr_id :: int

record product_row =
  pr_id :: int
  pr_category :: string

record order_row =
  or_id :: int
  or_customer_id :: int
  or_product_id :: int
  or_order_date :: "date option"
  or_total_amount :: "rat option"

section \<open>The methods\<close>

text \<open>The database without a node.\<close>

definition empty_graph :: graph where
  "empty_graph =
     \<lparr>customers = [], products = [], categories = [], orders = [], belongs_to = [],
      similar_to = [], co_purchased = []\<rparr>"

text \<open>\<^verbatim>\<open>MATCH (n) DETACH DELETE n\<close>: every node goes, and every relationship with it.\<close>

definition clear_database :: "graph \<Rightarrow> graph" where
  "clear_database g =
     \<lparr>customers = [], products = [], categories = [], orders = [], belongs_to = [],
      similar_to = [], co_purchased = []\<rparr>"

text \<open>\<^verbatim>\<open>UNWIND $customers AS customer CREATE (c:Customer {...})\<close>: one node a row.\<close>

definition new_customer :: "customer_row \<Rightarrow> customer_node" where
  "new_customer r =
     \<lparr>c_id = cr_id r, total_orders = None, total_spent = None, avg_order_value = None,
      last_order_date = None, customer_tier = None\<rparr>"

definition load_customers :: "customer_row list \<Rightarrow> graph \<Rightarrow> graph" where
  "load_customers rows g = g\<lparr>customers := customers g @ map new_customer rows\<rparr>"

text \<open>
  \<^verbatim>\<open>load_products\<close> runs two statements. The first creates one Product node a row.
  The second visits every Product node: \<^verbatim>\<open>MERGE (c:Category {name: p.category})\<close>
  binds every Category node of that name and creates one when there is none;
  \<^verbatim>\<open>MERGE (p)-[:BELONGS_TO]->(c)\<close> creates the relationship unless it is there.
\<close>

definition new_product :: "product_row \<Rightarrow> product_node" where
  "new_product r = \<lparr>p_id = pr_id r, category = pr_category r\<rparr>"

definition create_products :: "product_row list \<Rightarrow> graph \<Rightarrow> graph" where
  "create_products rows g = g\<lparr>products := products g @ map new_product rows\<rparr>"

definition merge_rel :: "node \<times> node \<Rightarrow> (node \<times> node) list \<Rightarrow> (node \<times> node) list" where
  "merge_rel r rs = (if r \<in> set rs then rs else rs @ [r])"

definition merge_category :: "node \<times> product_node \<Rightarrow> graph \<Rightarrow> graph" where
  "merge_category p g =
     (let cats = (if category (snd p) \<in> set (categories g) then categories g
                  else categories g @ [category (snd p)]);
          bound = [fst c. c \<leftarrow> enumerate 0 cats, snd c = category (snd p)]
      in g\<lparr>categories := cats,
            belongs_to := fold (\<lambda>c. merge_rel (fst p, c)) bound (belongs_to g)\<rparr>)"

definition create_categories :: "graph \<Rightarrow> graph" where
  "create_categories g = fold merge_category (enumerate 0 (products g)) g"

definition load_products :: "product_row list \<Rightarrow> graph \<Rightarrow> graph" where
  "load_products rows g = create_categories (create_products rows g)"

text \<open>
  \<^verbatim>\<open>load_orders\<close>: for every row, \<^verbatim>\<open>MATCH (c:Customer {id: order.customer_id})\<close> and
  \<^verbatim>\<open>MATCH (p:Product {id: order.product_id})\<close> bind every pair of a customer node and
  a product node with these ids, and the \<^verbatim>\<open>CREATE\<close> clauses run once for each pair. A
  row for which a \<^verbatim>\<open>MATCH\<close> finds nothing yields no pair: nothing is created for it and
  the statement goes on with the next row.
\<close>

definition new_order :: "order_row \<Rightarrow> node \<Rightarrow> node \<Rightarrow> order_node" where
  "new_order r c p =
     \<lparr>o_id = or_id r, order_date = or_order_date r, total_amount = or_total_amount r,
      placed_by = c, contains_product = p\<rparr>"

definition order_matches :: "graph \<Rightarrow> order_row \<Rightarrow> order_node list" where
  "order_matches g r =
     [new_order r (fst c) (fst p).
        c \<leftarrow> enumerate 0 (customers g), c_id (snd c) = or_customer_id r,
        p \<leftarrow> enumerate 0 (products g), p_id (snd p) = or_product_id r]"

definition load_orders :: "order_row list \<Rightarrow> graph \<Rightarrow> graph" where
  "load_orders rows g = g\<lparr>orders := orders g @ concat (map (order_matches g) rows)\<rparr>"

text \<open>
  \<^verbatim>\<open>create_customer_similarity_relationships\<close>. The two \<^verbatim>\<open>MATCH\<close> clauses give one
  row for every customer \<open>c1\<close>, order \<open>o1\<close> of \<open>c1\<close>, product \<open>p\<close> of \<open>o1\<close>, customer
  \<open>c2\<close> and order \<open>o2\<close> of \<open>c2\<close> for \<open>p\<close>, kept when \<^verbatim>\<open>c1.id < c2.id\<close>.
  \<^verbatim>\<open>WITH c1, c2, count(p)\<close> groups the rows by the two nodes and counts the rows of each
  group; \<^verbatim>\<open>CREATE\<close> adds one relationship for each group of at least two rows.
\<close>

definition similarity_rows :: "graph \<Rightarrow> (node \<times> node) list" where
  "similarity_rows g =
     [(fst c1, fst c2).
        c1 \<leftarrow> enumerate 0 (customers g),
        o1 \<leftarrow> orders g, placed_by o1 = fst c1,
        p \<leftarrow> enumerate 0 (products g), contains_product o1 = fst p,
        c2 \<leftarrow> enumerate 0 (customers g),
        o2 \<leftarrow> orders g, placed_by o2 = fst c2, contains_product o2 = fst p,
        c_id (snd c1) < c_id (snd c2)]"

definition count_rows :: "'a \<Rightarrow> 'a list \<Rightarrow> nat" where
  "count_rows k rows = length (filter (\<lambda>r. r = k) rows)"

definition grouped :: "'a list \<Rightarrow> ('a \<times> nat) list" where
  "grouped rows = [(k, count_rows k rows). k \<leftarrow> remdups rows]"

definition similarity_edges :: "graph \<Rightarrow> (node \<times> node \<times> nat) list" where
  "similarity_edges g =
     [(fst (fst kn), snd (fst kn), snd kn). kn \<leftarrow> grouped (similarity_rows g), 2 \<le> snd kn]"

definition create_customer_similarity_relationships :: "graph \<Rightarrow> graph" where
  "create_customer_similarity_relationships g =
     g\<lparr>similar_to := similar_to g @ similarity_edges g\<rparr>"

text \<open>
  \<^verbatim>\<open>create_product_co_purchase_relationships\<close>: one row for every product \<open>p1\<close>, order
  \<open>o1\<close> containing it, customer \<open>c\<close> of \<open>o1\<close>, order \<open>o2\<close> of \<open>c\<close> and product \<open>p2\<close>
  of \<open>o2\<close>, kept when \<^verbatim>\<open>p1.id < p2.id\<close>; grouped by the two products, counted by rows.
\<close>

definition co_purchase_rows :: "graph \<Rightarrow> (node \<times> node) list" where
  "co_purchase_rows g =
     [(fst p1, fst p2).
        p1 \<leftarrow> enumerate 0 (products g),
        o1 \<leftarrow> orders g, contains_product o1 = fst p1,
        c \<leftarrow> enumerate 0 (customers g), placed_by o1 = fst c,
        o2 \<leftarrow> orders g, placed_by o2 = fst c,
        p2 \<leftarrow> enumerate 0 (products g), contains_product o2 = fst p2,
        p_id (snd p1) < p_id (snd p2)]"

definition co_purchase_edges :: "graph \<Rightarrow> (node \<times> node \<times> nat) list" where
  "co_purchase_edges g =
     [(fst (fst kn), snd (fst kn), snd kn). kn \<leftarrow> grouped (co_purchase_rows g), 2 \<le> snd kn]"

definition create_product_co_purchase_relationships :: "graph \<Rightarrow> graph" where
  "create_product_co_purchase_relationships g =
     g\<lparr>co_purchased := co_purchased g @ co_purchase_edges g\<rparr>"

text \<open>
  \<^verbatim>\<open>calculate_customer_metrics\<close>. \<^verbatim>\<open>MATCH (c:Customer)-[:PLACED]->(o:Order)\<close> gives one
  row for every order of every customer, grouped by the customer; a customer without an
  order has no row and no group, so \<^verbatim>\<open>SET\<close> never reaches it. The aggregates are
  Cypher's: \<^verbatim>\<open>count(o)\<close> counts the rows; \<^verbatim>\<open>sum\<close>, \<^verbatim>\<open>avg\<close> and \<^verbatim>\<open>max\<close> pass over
  \<^verbatim>\<open>null\<close>; over no value at all \<^verbatim>\<open>sum\<close> is 0 and \<^verbatim>\<open>avg\<close> and \<^verbatim>\<open>max\<close> are
  \<^verbatim>\<open>null\<close>.
\<close>

definition customer_orders :: "graph \<Rightarrow> node \<Rightarrow> order_node list" where
  "customer_orders g c = filter (\<lambda>x. placed_by x = c) (orders g)"

definition present :: "'a option list \<Rightarrow> 'a list" where
  "present vs = [v. Some v \<leftarrow> vs]"

definition cy_sum :: "rat option list \<Rightarrow> rat" where
  "cy_sum vs = sum_list (present vs)"

definition cy_avg :: "rat option list \<Rightarrow> rat option" where
  "cy_avg vs =
     (if present vs = [] then None
      else Some (sum_list (present vs) / of_nat (length (present vs))))"

definition cy_max :: "date option list \<Rightarrow> date option" where
  "cy_max vs = (case present vs of [] \<Rightarrow> None | d # ds \<Rightarrow> Some (fold max ds d))"

definition tier_case :: "rat \<Rightarrow> string" where
  "tier_case spent =
     (if spent > 5000 then ''VIP'' else if spent > 2000 then ''Premium'' else ''Standard'')"

definition set_metrics :: "graph \<Rightarrow> node \<times> customer_node \<Rightarrow> customer_node" where
  "set_metrics g c =
     (let os = customer_orders g (fst c) in
      if os = [] then snd c
      else (snd c)\<lparr>total_orders := Some (length os),
                   total_spent := Some (cy_sum (map total_amount os)),
                   avg_order_value := cy_avg (map total_amount os),
                   last_order_date := cy_max (map order_date os),
                   customer_tier := Some (tier_case (cy_sum (map total_amount os)))\<rparr>)"

definition calculate_customer_metrics :: "graph \<Rightarrow> graph" where
  "calculate_customer_metrics g =
     g\<lparr>customers := map (set_metrics g) (enumerate 0 (customers g))\<rparr>"

text \<open>
  \<^verbatim>\<open>create_constraints\<close> and \<^verbatim>\<open>run_graph_analytics\<close> catch every exception of their
  statements and log it. The first adds uniqueness constraints, the second writes the
  properties \<^verbatim>\<open>pagerank\<close>, \<^verbatim>\<open>community\<close> and \<^verbatim>\<open>betweenness\<close>, which no statement
  reads: neither creates or deletes a node or a relationship, nor sets a modelled property.
\<close>

definition create_constraints :: "graph \<Rightarrow> graph" where
  "create_constraints g = g"

definition run_graph_analytics :: "graph \<Rightarrow> graph" where
  "run_graph_analytics g = g"

section \<open>The pipeline run\<close>

text \<open>
  No method raises by itself; what can raise is \<^verbatim>\<open>session.run\<close>, when the engine or the
  connection fails. Every \<^verbatim>\<open>session.run\<close> is a transaction of its own: when it raises,
  its statement has changed nothing, and what earlier statements wrote stays written. The
  predicate \<open>raises\<close> says at which statements the engine fails in a run. The outcome of a
  run is \<open>Inr\<close> the database when \<^verbatim>\<open>main\<close> returns, and \<open>Inl\<close> the exception with the
  database as the run left it when \<^verbatim>\<open>main\<close> raises.

  \<^verbatim>\<open>main\<close> builds its three data frames itself, from random numbers; they are parameters
  here.
\<close>

datatype step =
  Clear | LoadCustomers | CreateProducts | CreateCategories | LoadOrders
  | Similarity | CoPurchase | Metrics

datatype error = DriverError step

type_synonym outcome = "(error \<times> graph) + graph"

definition session_run :: "(step \<Rightarrow> bool) \<Rightarrow> step \<Rightarrow> (graph \<Rightarrow> graph) \<Rightarrow> outcome \<Rightarrow> outcome" where
  "session_run raises s statement r =
     (case r of
        Inl e \<Rightarrow> Inl e
      | Inr g \<Rightarrow> if raises s then Inl (DriverError s, g) else Inr (statement g))"

definition main ::
  "(step \<Rightarrow> bool) \<Rightarrow> customer_row list \<Rightarrow> product_row list \<Rightarrow> order_row list \<Rightarrow> graph
     \<Rightarrow> outcome" where
  "main raises customers_df products_df orders_df g =
     (let r = session_run raises Clear clear_database (Inr g);
          r = map_sum id create_constraints r;
          r = session_run raises LoadCustomers (load_customers customers_df) r;
          r = session_run raises CreateProducts (create_products products_df) r;
          r = session_run raises CreateCategories create_categories r;
          r = session_run raises LoadOrders (load_orders orders_df) r;
          r = session_run raises Similarity create_customer_similarity_relationships r;
          r = session_run raises CoPurchase create_product_co_purchase_relationships r;
          r = session_run raises Metrics calculate_customer_metrics r
      in map_sum id run_graph_analytics r)"

text \<open>The two derivation calls of \<^verbatim>\<open>main\<close>, one after the other.\<close>

definition derivation :: "graph \<Rightarrow> graph" where
  "derivation g =
     create_product_co_purchase_relationships (create_customer_similarity_relationships g)"

text \<open>The database after the loading calls of \<^verbatim>\<open>main\<close>, run on an empty database.\<close>

definition loaded_graph :: "customer_row list \<Rightarrow> product_row list \<Rightarrow> order_row list \<Rightarrow> graph" where
  "loaded_graph customers_df products_df orders_df =
     load_orders orders_df
       (create_categories (create_products products_df (load_customers customers_df empty_graph)))"

section \<open>What the specification counts\<close>

text \<open>
  The specification scores a pair of customers by the distinct products both have ordered,
  and a pair of products by the distinct customers who ordered both.
\<close>

definition shared_products :: "graph \<Rightarrow> node \<Rightarrow> node \<Rightarrow> node list" where
  "shared_products g c1 c2 =
     remdups [contains_product o1.
                o1 \<leftarrow> orders g, placed_by o1 = c1,
                o2 \<leftarrow> orders g, placed_by o2 = c2, contains_product o2 = contains_product o1]"

definition shared_customers :: "graph \<Rightarrow> node \<Rightarrow> node \<Rightarrow> node list" where
  "shared_customers g p1 p2 =
     remdups [placed_by o1.
                o1 \<leftarrow> orders g, contains_product o1 = p1,
                o2 \<leftarrow> orders g, contains_product o2 = p2, placed_by o2 = placed_by o1]"

section \<open>Sample databases\<close>

definition order_of :: "int \<Rightarrow> int \<Rightarrow> int \<Rightarrow> rat option \<Rightarrow> order_row" where
  "order_of n c p amount =
     \<lparr>or_id = n, or_customer_id = c, or_product_id = p, or_order_date = Some (19000 + n),
      or_total_amount = amount\<rparr>"

text \<open>Two customers and one product; the second customer spends 5000.01, the first 5000.\<close>

definition tier_graph :: graph where
  "tier_graph =
     load_orders [order_of 1 1 10 (Some 4000), order_of 2 1 10 (Some 1000),
                  order_of 3 2 10 (Some (500001 / 100))]
       (load_products [\<lparr>pr_id = 10, pr_category = ''Books''\<rparr>]
         (load_customers [\<lparr>cr_id = 1\<rparr>, \<lparr>cr_id = 2\<rparr>] empty_graph))"

text \<open>Two customers, the second without an order.\<close>

definition zero_graph :: graph where
  "zero_graph =
     loaded_graph [\<lparr>cr_id = 1\<rparr>, \<lparr>cr_id = 2\<rparr>] [\<lparr>pr_id = 10, pr_category = ''Books''\<rparr>]
       [order_of 1 1 10 (Some 300)]"

text \<open>One customer with two orders, the second without a \<^verbatim>\<open>total_amount\<close>.\<close>

definition null_graph :: graph where
  "null_graph =
     loaded_graph [\<lparr>cr_id = 1\<rparr>] [\<lparr>pr_id = 10, pr_category = ''Books''\<rparr>]
       [order_of 1 1 10 (Some 6000), order_of 2 1 10 None]"

section \<open>Evaluating the sample databases\<close>

lemmas load_defs =
  empty_graph_def order_of_def load_orders_def load_products_def load_customers_def
  create_products_def create_categories_def merge_category_def merge_rel_def
  order_matches_def new_order_def new_customer_def new_product_def enumerate_eq_zip upt_rec

lemma tier_graph_eval:
  "tier_graph =
     \<lparr>customers = [new_customer \<lparr>cr_id = 1\<rparr>, new_customer \<lparr>cr_id = 2\<rparr>],
      products = [\<lparr>p_id = 10, category = ''Books''\<rparr>], categories = [''Books''],
      orders = [new_order (order_of 1 1 10 (Some 4000)) 0 0,
                new_order (order_of 2 1 10 (Some 1000)) 0 0,
                new_order (order_of 3 2 10 (Some (500001 / 100))) 1 0],
      belongs_to = [(0, 0)], similar_to = [], co_purchased = []\<rparr>"
  by (simp add: tier_graph_def load_defs)

lemma zero_graph_eval:
  "zero_graph =
     \<lparr>customers = [new_customer \<lparr>cr_id = 1\<rparr>, new_customer \<lparr>cr_id = 2\<rparr>],
      products = [\<lparr>p_id = 10, category = ''Books''\<rparr>], categories = [''Books''],
      orders = [new_order (order_of 1 1 10 (Some 300)) 0 0],
      belongs_to = [(0, 0)], similar_to = [], co_purchased = []\<rparr>"
  by (simp add: zero_graph_def loaded_graph_def load_defs)

lemma null_graph_eval:
  "null_graph =
     \<lparr>customers = [new_customer \<lparr>cr_id = 1\<rparr>],
      products = [\<lparr>p_id = 10, category = ''Books''\<rparr>], categories = [''Books''],
      orders = [new_order (order_of 1 1 10 (Some 6000)) 0 0, new_order (order_of 2 1 10 None) 0 0],
      belongs_to = [(0, 0)], similar_to = [], co_purchased = []\<rparr>"
  by (simp add: null_graph_def loaded_graph_def load_defs)

section \<open>Statements and the fields they leave alone\<close>

lemma clear_database_empty: "clear_database g = empty_graph"
  by (simp add: clear_database_def empty_graph_def)

lemma main_cases:
  "main raises cs ps os g =
     (if raises Clear then Inl (DriverError Clear, g)
      else if raises LoadCustomers then Inl (DriverError LoadCustomers, empty_graph)
      else if raises CreateProducts then
        Inl (DriverError CreateProducts, load_customers cs empty_graph)
      else if raises CreateCategories then
        Inl (DriverError CreateCategories, create_products ps (load_customers cs empty_graph))
      else if raises LoadOrders then
        Inl (DriverError LoadOrders,
             create_categories (create_products ps (load_customers cs empty_graph)))
      else if raises Similarity then Inl (DriverError Similarity, loaded_graph cs ps os)
      else if raises CoPurchase then
        Inl (DriverError CoPurchase,
             create_customer_similarity_relationships (loaded_graph cs ps os))
      else if raises Metrics then Inl (DriverError Metrics, derivation (loaded_graph cs ps os))
      else Inr (calculate_customer_metrics (derivation (loaded_graph cs ps os))))"
  by (simp add: main_def session_run_def Let_def clear_database_empty create_constraints_def
      run_graph_analytics_def loaded_graph_def derivation_def)

lemma fold_merge_rel_same:
  "customers (fold merge_category ps g) = customers g \<and>
   products (fold merge_category ps g) = products g \<and>
   orders (fold merge_category ps g) = orders g \<and>
   similar_to (fold merge_category ps g) = similar_to g \<and>
   co_purchased (fold merge_category ps g) = co_purchased g"
  by (induction ps arbitrary: g) (simp_all add: merge_category_def Let_def)

lemma create_categories_keeps [simp]:
  "customers (create_categories g) = customers g"
  "products (create_categories g) = products g"
  "orders (create_categories g) = orders g"
  "similar_to (create_categories g) = similar_to g"
  "co_purchased (create_categories g) = co_purchased g"
  by (simp_all add: create_categories_def fold_merge_rel_same)

lemma loaded_graph_parts:
  "customers (loaded_graph cs ps os) = map new_customer cs"
  "products (loaded_graph cs ps os) = map new_product ps"
  "similar_to (loaded_graph cs ps os) = []"
  "co_purchased (loaded_graph cs ps os) = []"
  by (simp_all add: loaded_graph_def load_orders_def create_products_def load_customers_def
      empty_graph_def)

lemma derivation_keeps [simp]:
  "customers (derivation g) = customers g"
  "products (derivation g) = products g"
  "orders (derivation g) = orders g"
  by (simp_all add: derivation_def create_product_co_purchase_relationships_def
      create_customer_similarity_relationships_def)

lemma metrics_keeps [simp]:
  "orders (calculate_customer_metrics g) = orders g"
  "products (calculate_customer_metrics g) = products g"
  "similar_to (calculate_customer_metrics g) = similar_to g"
  "co_purchased (calculate_customer_metrics g) = co_purchased g"
  "length (customers (calculate_customer_metrics g)) = length (customers g)"
  by (simp_all add: calculate_customer_metrics_def)

lemma customer_orders_cong:
  "orders g = orders g' \<Longrightarrow> customer_orders g i = customer_orders g' i"
  by (simp add: customer_orders_def)

section \<open>Customer metrics\<close>

lemma metrics_nth:
  "i < length (customers g) \<Longrightarrow>
   customers (calculate_customer_metrics g) ! i = set_metrics g (i, customers g ! i)"
  by (simp add: calculate_customer_metrics_def nth_enumerate_eq)

text \<open>
  Claim C4. A customer with at least one order has a \<open>total_spent\<close> after the metrics
  computation, and its tier depends on that sum alone: above 5000 it is VIP, above 2000 and
  up to 5000 it is Premium, and Standard otherwise. A sum of exactly 5000 is Premium, a sum
  of 5000.01 is VIP.
\<close>

theorem tier_from_total_spent:
  assumes "i < length (customers g)" and "customer_orders g i \<noteq> []"
  shows "\<exists>s. total_spent (customers (calculate_customer_metrics g) ! i) = Some s \<and>
           customer_tier (customers (calculate_customer_metrics g) ! i) =
             Some (if s > 5000 then ''VIP''
                   else if 2000 < s \<and> s \<le> 5000 then ''Premium'' else ''Standard'') \<and>
           (s = 5000 \<longrightarrow>
              customer_tier (customers (calculate_customer_metrics g) ! i) = Some ''Premium'') \<and>
           (s = 500001 / 100 \<longrightarrow>
              customer_tier (customers (calculate_customer_metrics g) ! i) = Some ''VIP'')"
  using assms by (simp add: metrics_nth set_metrics_def tier_case_def Let_def)

theorem tier_from_total_spent_witness:
  "customer_orders tier_graph 0 \<noteq> [] \<and> customer_orders tier_graph 1 \<noteq> [] \<and>
   total_spent (customers (calculate_customer_metrics tier_graph) ! 0) = Some 5000 \<and>
   customer_tier (customers (calculate_customer_metrics tier_graph) ! 0) = Some ''Premium'' \<and>
   total_spent (customers (calculate_customer_metrics tier_graph) ! 1) = Some (500001 / 100) \<and>
   customer_tier (customers (calculate_customer_metrics tier_graph) ! 1) = Some ''VIP''"
proof -
  have l: "0 < length (customers tier_graph)" "1 < length (customers tier_graph)"
    by (simp_all add: tier_graph_eval)
  have o0: "customer_orders tier_graph 0 \<noteq> []" and o1: "customer_orders tier_graph 1 \<noteq> []"
    by (simp_all add: tier_graph_eval customer_orders_def new_order_def)
  have s0: "total_spent (customers (calculate_customer_metrics tier_graph) ! 0) = Some 5000"
    by (simp add: metrics_nth l set_metrics_def customer_orders_def tier_graph_eval cy_sum_def
        present_def new_customer_def new_order_def order_of_def)
  have s1: "total_spent (customers (calculate_customer_metrics tier_graph) ! 1)
              = Some (500001 / 100)"
    by (simp add: metrics_nth l set_metrics_def customer_orders_def tier_graph_eval cy_sum_def
        present_def new_customer_def new_order_def order_of_def)
  from tier_from_total_spent [OF l(1) o0] tier_from_total_spent [OF l(2) o1] s0 s1 o0 o1
  show ?thesis by auto
qed

text \<open>
  Claim C2, as the program has it. The metrics computation leaves a customer with zero
  orders as it was; after a run that completed, such a customer has none of the five metrics
  properties: \<open>total_orders\<close> is absent, not 0, and \<open>customer_tier\<close> is absent, not
  Standard.
\<close>

theorem zero_orders_untouched:
  "(i < length (customers g) \<and> customer_orders g i = [] \<longrightarrow>
      customers (calculate_customer_metrics g) ! i = customers g ! i) \<and>
   (main raises cs ps os g0 = Inr g \<and> i < length (customers g) \<and> customer_orders g i = [] \<longrightarrow>
      total_orders (customers g ! i) = None \<and> total_spent (customers g ! i) = None \<and>
      avg_order_value (customers g ! i) = None \<and> last_order_date (customers g ! i) = None \<and>
      customer_tier (customers g ! i) = None)"
proof (intro conjI impI)
  assume "i < length (customers g) \<and> customer_orders g i = []"
  then show "customers (calculate_customer_metrics g) ! i = customers g ! i"
    by (simp add: metrics_nth set_metrics_def)
next
  assume a: "main raises cs ps os g0 = Inr g \<and> i < length (customers g) \<and> customer_orders g i = []"
  define d where "d = derivation (loaded_graph cs ps os)"
  from a have g: "g = calculate_customer_metrics d"
    by (simp add: main_cases d_def split: if_splits)
  from a g have i: "i < length cs" by (simp add: d_def loaded_graph_parts)
  from a g have "customer_orders d i = []"
    by (simp add: customer_orders_def)
  with i g have "customers g ! i = new_customer (cs ! i)"
    by (simp add: metrics_nth set_metrics_def d_def loaded_graph_parts)
  then show "total_orders (customers g ! i) = None" "total_spent (customers g ! i) = None"
    "avg_order_value (customers g ! i) = None" "last_order_date (customers g ! i) = None"
    "customer_tier (customers g ! i) = None"
    by (simp_all add: new_customer_def)
qed


theorem zero_orders_untouched_witness:
  "customer_orders zero_graph 1 = [] \<and>
   customers (calculate_customer_metrics zero_graph) ! 1 = new_customer \<lparr>cr_id = 2\<rparr> \<and>
   main (\<lambda>s. False) [\<lparr>cr_id = 1\<rparr>, \<lparr>cr_id = 2\<rparr>] [\<lparr>pr_id = 10, pr_category = ''Books''\<rparr>]
     [order_of 1 1 10 (Some 300)] empty_graph
     = Inr (calculate_customer_metrics (derivation zero_graph)) \<and>
   customer_orders (calculate_customer_metrics (derivation zero_graph)) 1 = [] \<and>
   customer_tier (customers (calculate_customer_metrics (derivation zero_graph)) ! 1) = None"
proof -
  have l: "1 < length (customers zero_graph)"
    by (simp add: zero_graph_eval)
  have e: "customer_orders zero_graph 1 = []"
    by (simp add: customer_orders_def zero_graph_eval new_order_def)
  have m: "main (\<lambda>s. False) [\<lparr>cr_id = 1\<rparr>, \<lparr>cr_id = 2\<rparr>]
             [\<lparr>pr_id = 10, pr_category = ''Books''\<rparr>] [order_of 1 1 10 (Some 300)] empty_graph
           = Inr (calculate_customer_metrics (derivation zero_graph))"
    by (simp add: main_cases zero_graph_def)
  have e': "customer_orders (calculate_customer_metrics (derivation zero_graph)) 1 = []"
    using e by (simp add: customer_orders_def)
  have l': "1 < length (customers (calculate_customer_metrics (derivation zero_graph)))"
    using l by simp
  from zero_orders_untouched [of 1 zero_graph] l e
  have "customers (calculate_customer_metrics zero_graph) ! 1 = new_customer \<lparr>cr_id = 2\<rparr>"
    by (simp add: zero_graph_eval)
  moreover from zero_orders_untouched
    [of 1 "calculate_customer_metrics (derivation zero_graph)" "\<lambda>s. False"
      "[\<lparr>cr_id = 1\<rparr>, \<lparr>cr_id = 2\<rparr>]" "[\<lparr>pr_id = 10, pr_category = ''Books''\<rparr>]"
      "[order_of 1 1 10 (Some 300)]" empty_graph] m e' l'
  have "customer_tier (customers (calculate_customer_metrics (derivation zero_graph)) ! 1) = None"
    by blast
  ultimately show ?thesis using e m e' by blast
qed

text \<open>
  Claim C2 fails as stated: the second customer of \<open>zero_graph\<close> has no order, and after
  the metrics computation its tier is not Standard and its \<open>total_orders\<close> is not 0.
\<close>

theorem zero_orders_counterexample:
  "customer_orders zero_graph 1 = [] \<and>
   customer_tier (customers (calculate_customer_metrics zero_graph) ! 1) \<noteq> Some ''Standard'' \<and>
   total_orders (customers (calculate_customer_metrics zero_graph) ! 1) \<noteq> Some 0"
  by (simp add: metrics_nth set_metrics_def customer_orders_def zero_graph_eval new_order_def
      new_customer_def)

lemma sum_present:
  "sum_list (present (map total_amount xs))
     = (\<Sum>x\<leftarrow>xs. case total_amount x of None \<Rightarrow> 0 | Some a \<Rightarrow> a)"
  by (induction xs) (simp_all add: present_def split: option.split)

text \<open>
  Claim C7, as the program has it. A missing \<open>total_amount\<close> raises nothing: the order
  counts in \<open>total_orders\<close>, the sum passes over the missing amount, which is the same as
  adding 0 for it, and the tier is computed from that sum. A run in which the engine does not
  fail returns, whatever the amounts.
\<close>

theorem null_amount_skipped:
  "(i < length (customers g) \<and> customer_orders g i \<noteq> [] \<longrightarrow>
      total_orders (customers (calculate_customer_metrics g) ! i)
        = Some (length (customer_orders g i)) \<and>
      total_spent (customers (calculate_customer_metrics g) ! i)
        = Some (\<Sum>x\<leftarrow>customer_orders g i. case total_amount x of None \<Rightarrow> 0 | Some a \<Rightarrow> a) \<and>
      customer_tier (customers (calculate_customer_metrics g) ! i)
        = Some (tier_case
             (\<Sum>x\<leftarrow>customer_orders g i. case total_amount x of None \<Rightarrow> 0 | Some a \<Rightarrow> a))) \<and>
   ((\<forall>s. \<not> raises s) \<longrightarrow> (\<exists>g'. main raises cs ps os g0 = Inr g'))"
  by (simp add: metrics_nth set_metrics_def Let_def cy_sum_def sum_present main_cases)

theorem null_amount_skipped_witness:
  "customer_orders null_graph 0 \<noteq> [] \<and>
   total_orders (customers (calculate_customer_metrics null_graph) ! 0) = Some 2 \<and>
   total_spent (customers (calculate_customer_metrics null_graph) ! 0) = Some 6000 \<and>
   (\<exists>g'. main (\<lambda>s. False) [\<lparr>cr_id = 1\<rparr>] [\<lparr>pr_id = 10, pr_category = ''Books''\<rparr>]
           [order_of 1 1 10 (Some 6000), order_of 2 1 10 None] empty_graph = Inr g')"
proof -
  have l: "0 < length (customers null_graph)"
    by (simp add: null_graph_eval)
  have o: "customer_orders null_graph 0
             = [new_order (order_of 1 1 10 (Some 6000)) 0 0, new_order (order_of 2 1 10 None) 0 0]"
    by (simp add: customer_orders_def null_graph_eval new_order_def)
  have n: "customer_orders null_graph 0 \<noteq> []"
    by (simp add: o)
  from null_amount_skipped [where i = 0 and g = null_graph and raises = "\<lambda>s. False"
      and cs = "[\<lparr>cr_id = 1\<rparr>]" and ps = "[\<lparr>pr_id = 10, pr_category = ''Books''\<rparr>]"
      and os = "[order_of 1 1 10 (Some 6000), order_of 2 1 10 None]" and ?g0.0 = empty_graph] l n
  show ?thesis
    by (simp add: o new_order_def order_of_def)
qed

text \<open>
  Claim C7 fails as stated: the only customer of \<open>null_graph\<close> has an order without an
  amount, its metrics are computed all the same, from the other order alone, and the run
  returns.
\<close>

theorem null_amount_counterexample:
  "map total_amount (customer_orders null_graph 0) = [Some 6000, None] \<and>
   total_spent (customers (calculate_customer_metrics null_graph) ! 0) = Some 6000 \<and>
   customer_tier (customers (calculate_customer_metrics null_graph) ! 0) = Some ''VIP'' \<and>
   main (\<lambda>s. False) [\<lparr>cr_id = 1\<rparr>] [\<lparr>pr_id = 10, pr_category = ''Books''\<rparr>]
     [order_of 1 1 10 (Some 6000), order_of 2 1 10 None] empty_graph
     = Inr (calculate_customer_metrics (derivation null_graph))"
proof -
  have "main (\<lambda>s. False) [\<lparr>cr_id = 1\<rparr>] [\<lparr>pr_id = 10, pr_category = ''Books''\<rparr>]
          [order_of 1 1 10 (Some 6000), order_of 2 1 10 None] empty_graph
        = Inr (calculate_customer_metrics (derivation null_graph))"
    by (simp add: main_cases null_graph_def)
  moreover have "map total_amount (customer_orders null_graph 0) = [Some 6000, None]"
    by (simp add: customer_orders_def null_graph_eval new_order_def order_of_def)
  moreover have
    "total_spent (customers (calculate_customer_metrics null_graph) ! 0) = Some 6000"
    "customer_tier (customers (calculate_customer_metrics null_graph) ! 0) = Some ''VIP''"
    by (simp_all add: metrics_nth set_metrics_def customer_orders_def null_graph_eval
        new_order_def new_customer_def order_of_def cy_sum_def present_def tier_case_def)
  ultimately show ?thesis by blast
qed

end
